theory Spec2Isabelle
  imports Complex_Main
begin

section \<open>Guest records and the two corpus builders\<close>

text \<open>
  A row of the guest dataset: the four string columns the two scripts read
  (\<^verbatim>\<open>guest['name']\<close>, \<^verbatim>\<open>guest['relation']\<close>, \<^verbatim>\<open>guest['description']\<close>,
  \<^verbatim>\<open>guest['email']\<close>). The dataset itself is a list of rows, in dataset order.
\<close>

record guest =
  name :: string
  relation :: string
  description :: string
  email :: string

text \<open>
  \<^verbatim>\<open>langchain_core.documents.Document(page_content=..., metadata=...)\<close>, as built in
  \<^verbatim>\<open>smolagents_rag.py\<close>; the metadata dictionary is a map from keys to strings.
\<close>

record langchain_Document =
  page_content :: string
  metadata :: "string \<rightharpoonup> string"

text \<open>
  \<^verbatim>\<open>llama_index.core.schema.Document(text=..., metadata=...)\<close>, as built in
  \<^verbatim>\<open>llama_index_rag.py\<close>. Only the two fields the script sets are modelled.
\<close>

record llama_Document =
  text_field :: string
  metadata_field :: "string \<rightharpoonup> string"

text \<open>Python's \<^verbatim>\<open>sep.join(parts)\<close> on a list of strings.\<close>

fun str_join :: "string \<Rightarrow> string list \<Rightarrow> string" where
  "str_join sep [] = []"
| "str_join sep [x] = x"
| "str_join sep (x # y # ys) = x @ sep @ str_join sep (y # ys)"

text \<open>
  \<^verbatim>\<open>smolagents_rag.py\<close>, lines 14 to 25. The list handed to \<^verbatim>\<open>"\n".join\<close> has no
  comma between the third and the fourth f-string, so Python concatenates the two
  literals: the list has three elements, the last being
  \<^verbatim>\<open>f"Description: {...}Email: {...}"\<close>.
\<close>

definition docs_smolagents :: "guest list \<Rightarrow> langchain_Document list" where
  "docs_smolagents guest_dataset =
     map (\<lambda>guest.
            \<lparr> page_content = str_join ''\<newline>''
                 [ ''Name: '' @ name guest,
                   ''Relation: '' @ relation guest,
                   ''Description: '' @ description guest @ ''Email: '' @ email guest ],
              metadata = [''name'' \<mapsto> name guest] \<rparr>)
         guest_dataset"

text \<open>
  \<^verbatim>\<open>llama_index_rag.py\<close>, lines 17 to 28. The comprehension runs over
  \<^verbatim>\<open>range(len(guest_dataset))\<close> and reads each column at index \<^verbatim>\<open>i\<close>
  (\<^verbatim>\<open>guest_dataset['name'][i]\<close>); a column is the list of that field over the rows.
  Every index read is below the length, so no read is out of range.
\<close>

definition docs_llama_index :: "guest list \<Rightarrow> llama_Document list" where
  "docs_llama_index guest_dataset =
     map (\<lambda>i.
            \<lparr> text_field = str_join ''\<newline>''
                 [ ''Name: '' @ (map name guest_dataset ! i),
                   ''Relation: '' @ (map relation guest_dataset ! i),
                   ''Description: '' @ (map description guest_dataset ! i),
                   ''Email: '' @ (map email guest_dataset ! i) ],
              metadata_field = [''name'' \<mapsto> map name guest_dataset ! i] \<rparr>)
         [0 ..< length guest_dataset]"

text \<open>
  The document text as the specification words it, for comparison with the two
  builders: the four labelled strings, in the order Name, Relation, Description,
  Email, joined with a newline.
\<close>

definition document_text_spec :: "guest \<Rightarrow> string" where
  "document_text_spec g =
     str_join ''\<newline>''
       [ ''Name: '' @ name g, ''Relation: '' @ relation g,
         ''Description: '' @ description g, ''Email: '' @ email g ]"

text \<open>A sample guest, used where a property is evaluated on a concrete input.\<close>

definition ada :: guest where
  "ada = \<lparr> name = ''Ada Lovelace'', relation = ''aunt'',
           description = ''mathematician'', email = ''ada@example.com'' \<rparr>"

definition marie :: guest where
  "marie = \<lparr> name = ''Marie Curie'', relation = ''friend'',
             description = ''physicist'', email = ''marie@example.com'' \<rparr>"

section \<open>The guest lookup tool\<close>

subsection \<open>The smolagents variant\<close>

text \<open>
  The class attributes of \<^verbatim>\<open>GuestInfoRetrieverTool\<close> that the agent framework reads
  (\<^verbatim>\<open>smolagents_rag.py\<close>, lines 28 to 36).
\<close>

definition GuestInfoRetrieverTool_name :: string where
  "GuestInfoRetrieverTool_name = ''guest_info_retriever''"

definition GuestInfoRetrieverTool_description :: string where
  "GuestInfoRetrieverTool_description =
     ''Retrieves information about a guest by name or relation''"

definition GuestInfoRetrieverTool_output_type :: string where
  "GuestInfoRetrieverTool_output_type = ''string''"

text \<open>
  The instance attributes set by \<^verbatim>\<open>__init__\<close>. The retriever object comes from the
  third-party \<^verbatim>\<open>BM25Retriever\<close>; the script only ever calls \<^verbatim>\<open>invoke(query)\<close> on it,
  so it is modelled by that one operation: a function from the query to the ranked
  list of documents it returns.
\<close>

record GuestInfoRetrieverTool =
  is_initialized :: bool
  retriever :: "string \<Rightarrow> langchain_Document list"

text \<open>
  \<^verbatim>\<open>__init__(self, docs)\<close>, lines 38 to 40. \<^verbatim>\<open>BM25Retriever.from_documents\<close> is not
  code of the repository and is a parameter: it maps the corpus to the retriever's
  \<^verbatim>\<open>invoke\<close>.
\<close>

definition GuestInfoRetrieverTool_init ::
  "(langchain_Document list \<Rightarrow> string \<Rightarrow> langchain_Document list)
     \<Rightarrow> langchain_Document list \<Rightarrow> GuestInfoRetrieverTool" where
  "GuestInfoRetrieverTool_init from_documents docs =
     \<lparr> is_initialized = False, retriever = from_documents docs \<rparr>"

definition no_relevant_documents :: string where
  "no_relevant_documents = ''No relevant documents found''"

text \<open>
  \<^verbatim>\<open>forward(self, query)\<close>, lines 42 to 47: a non-empty result list is truthy, and
  \<^verbatim>\<open>results[:3]\<close> keeps its first three elements.
\<close>

definition forward :: "GuestInfoRetrieverTool \<Rightarrow> string \<Rightarrow> string" where
  "forward self query =
     (let results = retriever self query in
      if results \<noteq> []
      then str_join ''\<newline>\<newline>'' (map page_content (take 3 results))
      else no_relevant_documents)"

subsection \<open>The llama-index variant\<close>

text \<open>
  \<^verbatim>\<open>get_guest_info_retirever(query)\<close>, \<^verbatim>\<open>llama_index_rag.py\<close> lines 32 to 40. The
  function reads the module-level \<^verbatim>\<open>bm25_retirever\<close>, here its first argument (the
  retriever's \<^verbatim>\<open>retrieve\<close>, with each returned node read through \<^verbatim>\<open>.text\<close>). The result
  list is joined whole: this variant has no slice.
\<close>

definition get_guest_info_retirever ::
  "(string \<Rightarrow> llama_Document list) \<Rightarrow> string \<Rightarrow> string" where
  "get_guest_info_retirever bm25_retirever query =
     (let results = bm25_retirever query in
      if results \<noteq> []
      then str_join ''\<newline>\<newline>'' (map text_field results)
      else no_relevant_documents)"

text \<open>
  The docstring of \<^verbatim>\<open>get_guest_info_retirever\<close>, the only descriptive text this
  variant gives \<^verbatim>\<open>FunctionTool.from_defaults\<close>.
\<close>

definition get_guest_info_retirever_doc :: string where
  "get_guest_info_retirever_doc =
     ''\<newline>    Retrieves detailed information about gala guests based on their name or relation\<newline>    ''"

text \<open>
  The capability description as the specification words it, for comparison with
  the strings of the two variants.
\<close>

definition capability_description_spec :: string where
  "capability_description_spec =
     ''Retrieves information about a guest by name or relation.''"


subsection \<open>The tool as a Python object\<close>

text \<open>
  Exceptions are named by their class.
\<close>

type_synonym exception = string

text \<open>
  An instance of \<^verbatim>\<open>GuestInfoRetrieverTool\<close> as Python holds it: its two instance
  attributes, each present or absent. The attribute \<^verbatim>\<open>retriever\<close> holds the
  third-party retriever object, whose type \<open>'r\<close> is left open; a call of its
  \<^verbatim>\<open>invoke\<close> returns the result list and the retriever object as the call leaves it.
  The class body (lines 27 to 47) gives the class no attribute \<^verbatim>\<open>retriever\<close>, and the
  base class \<^verbatim>\<open>Tool\<close>, which is not code of the repository, is taken to give none.
\<close>

record 'r GuestInfoRetrieverTool_object =
  attr_is_initialized :: "bool option"
  attr_retriever :: "'r option"

text \<open>An object on which \<^verbatim>\<open>__init__\<close> has not run: no instance attribute is set.\<close>

definition new_object :: "'r GuestInfoRetrieverTool_object" where
  "new_object = \<lparr> attr_is_initialized = None, attr_retriever = None \<rparr>"

text \<open>
  \<^verbatim>\<open>__init__(self, docs)\<close>, lines 38 to 40, on an object. Line 39 sets the flag; line 40
  calls \<^verbatim>\<open>BM25Retriever.from_documents(docs)\<close>, a parameter here, which returns a
  retriever or raises. The call is not guarded, so an exception of the constructor
  leaves \<^verbatim>\<open>__init__\<close> and no tool is returned.
\<close>

definition init_call ::
  "(langchain_Document list \<Rightarrow> exception + 'r) \<Rightarrow> 'r GuestInfoRetrieverTool_object
     \<Rightarrow> langchain_Document list \<Rightarrow> exception + 'r GuestInfoRetrieverTool_object" where
  "init_call from_documents self docs =
     (let self1 = self\<lparr>attr_is_initialized := Some False\<rparr> in
      case from_documents docs of
        Inl e \<Rightarrow> Inl e
      | Inr r \<Rightarrow> Inr (self1\<lparr>attr_retriever := Some r\<rparr>))"

text \<open>\<^verbatim>\<open>GuestInfoRetrieverTool(docs)\<close>, line 50: a new object, then \<^verbatim>\<open>__init__\<close> on it.\<close>

definition GuestInfoRetrieverTool_new ::
  "(langchain_Document list \<Rightarrow> exception + 'r) \<Rightarrow> langchain_Document list
     \<Rightarrow> exception + 'r GuestInfoRetrieverTool_object" where
  "GuestInfoRetrieverTool_new from_documents docs = init_call from_documents new_object docs"

text \<open>
  \<^verbatim>\<open>forward(self, query)\<close>, lines 42 to 47, on an object: the outcome and the object
  afterwards. Line 43 reads \<^verbatim>\<open>self.retriever\<close>, which raises \<^verbatim>\<open>AttributeError\<close> when
  the attribute is absent, and calls \<^verbatim>\<open>invoke\<close>, a parameter here, on the retriever
  object. The body assigns no attribute of \<^verbatim>\<open>self\<close>; the retriever object is as
  the call of \<^verbatim>\<open>invoke\<close> leaves it.
\<close>

definition forward_call ::
  "('r \<Rightarrow> string \<Rightarrow> langchain_Document list \<times> 'r) \<Rightarrow> 'r GuestInfoRetrieverTool_object
     \<Rightarrow> string \<Rightarrow> (exception + string) \<times> 'r GuestInfoRetrieverTool_object" where
  "forward_call invoke self query =
     (case attr_retriever self of
        None \<Rightarrow> (Inl ''AttributeError'', self)
      | Some r \<Rightarrow>
          (case invoke r query of
             (results, r') \<Rightarrow>
               (Inr (if results \<noteq> []
                     then str_join ''\<newline>\<newline>'' (map page_content (take 3 results))
                     else no_relevant_documents),
                self\<lparr>attr_retriever := Some r'\<rparr>)))"

text \<open>A sequence of calls of \<^verbatim>\<open>forward\<close>, one per query, on the same object.\<close>

fun forward_calls ::
  "('r \<Rightarrow> string \<Rightarrow> langchain_Document list \<times> 'r) \<Rightarrow> 'r GuestInfoRetrieverTool_object
     \<Rightarrow> string list \<Rightarrow> (exception + string) list \<times> 'r GuestInfoRetrieverTool_object" where
  "forward_calls invoke self [] = ([], self)"
| "forward_calls invoke self (q # qs) =
     (case forward_call invoke self q of
        (out, self') \<Rightarrow>
          (case forward_calls invoke self' qs of (outs, self'') \<Rightarrow> (out # outs, self'')))"

text \<open>
  The agent does not call \<^verbatim>\<open>forward\<close> itself: the tool is handed to
  \<^verbatim>\<open>ToolCallingAgent\<close> (line 64), which calls the object through the \<^verbatim>\<open>__call__\<close> it
  inherits from \<^verbatim>\<open>Tool\<close> (line 27). That method is not code of the repository; what
  it does to the object before it calls \<^verbatim>\<open>forward\<close> is the parameter
  \<open>before_forward\<close>.
\<close>

definition tool_call ::
  "('r GuestInfoRetrieverTool_object \<Rightarrow> 'r GuestInfoRetrieverTool_object)
     \<Rightarrow> ('r \<Rightarrow> string \<Rightarrow> langchain_Document list \<times> 'r) \<Rightarrow> 'r GuestInfoRetrieverTool_object
     \<Rightarrow> string \<Rightarrow> (exception + string) \<times> 'r GuestInfoRetrieverTool_object" where
  "tool_call before_forward invoke self query = forward_call invoke (before_forward self) query"

text \<open>
  \<^verbatim>\<open>get_guest_info_retirever(query)\<close> of the llama-index variant with the module-level
  retriever object as state: the string returned and the retriever object as the
  call of \<^verbatim>\<open>retrieve\<close> leaves it. The function does not rebind \<^verbatim>\<open>bm25_retirever\<close>.
\<close>

definition get_guest_info_retirever_call ::
  "('r \<Rightarrow> string \<Rightarrow> llama_Document list \<times> 'r) \<Rightarrow> 'r \<Rightarrow> string \<Rightarrow> string \<times> 'r" where
  "get_guest_info_retirever_call retrieve bm25_retirever query =
     (case retrieve bm25_retirever query of
        (results, r') \<Rightarrow>
          ((if results \<noteq> []
            then str_join ''\<newline>\<newline>'' (map text_field results)
            else no_relevant_documents),
           r'))"

text \<open>
  A retriever object whose calls leave it as it was: the object is its answer to
  each query.
\<close>

definition read_only_invoke :: "(string \<Rightarrow> 'd list) \<Rightarrow> string \<Rightarrow> 'd list \<times> (string \<Rightarrow> 'd list)" where
  "read_only_invoke r query = (r query, r)"

section \<open>The retriever\<close>

text \<open>
  Modelled from the spec: the ranking step of \<^verbatim>\<open>BM25Retriever\<close>, a third-party class
  whose code is not in the repository. The specification has every document scored
  against the query and the documents ranked by descending score, ties kept in
  corpus order. The scoring formula is left open by the specification and is the
  parameter \<open>score\<close>.
\<close>

definition rank_documents :: "(string \<Rightarrow> 'd \<Rightarrow> real) \<Rightarrow> string \<Rightarrow> 'd list \<Rightarrow> 'd list" where
  "rank_documents score query docs = sort_key (\<lambda>d. - score query d) docs"

text \<open>
  Modelled from the spec: what \<^verbatim>\<open>BM25Retriever\<close> (built by \<^verbatim>\<open>from_documents\<close> or
  \<^verbatim>\<open>from_defaults\<close>) returns from \<^verbatim>\<open>invoke\<close> or \<^verbatim>\<open>retrieve\<close>; the class is third-party
  and its code is not in the repository. The specification takes the top \<open>top_k\<close>
  of the ranking and returns those of them that score above zero. Neither script
  passes a \<open>top_k\<close>, so the library's default is a parameter here.
\<close>

definition bm25_retrieve ::
  "(string \<Rightarrow> 'd \<Rightarrow> real) \<Rightarrow> nat \<Rightarrow> 'd list \<Rightarrow> string \<Rightarrow> 'd list" where
  "bm25_retrieve score top_k docs query =
     filter (\<lambda>d. 0 < score query d) (take top_k (rank_documents score query docs))"

subsection \<open>A sample scoring function and sample corpora\<close>

text \<open>
  Used only to evaluate properties on concrete inputs: the words of a string
  (split at spaces and newlines), and the number of occurrences of the query's
  words among the words of a text.
\<close>

primrec words_from :: "string \<Rightarrow> string \<Rightarrow> string list" where
  "words_from w [] = (if w = [] then [] else [w])"
| "words_from w (c # cs) =
     (if c = CHR '' '' \<or> c = CHR ''\<newline>''
      then (if w = [] then words_from [] cs else w # words_from [] cs)
      else words_from (w @ [c]) cs)"

definition term_frequency :: "string \<Rightarrow> string \<Rightarrow> real" where
  "term_frequency query txt =
     real (sum_list (map (count_list (words_from [] txt)) (words_from [] query)))"

definition gala_texts :: "string list" where
  "gala_texts = [''gala one'', ''gala gala two'', ''gala gala gala three'',
                 ''four gala'', ''gala five gala'']"

definition gala_docs :: "langchain_Document list" where
  "gala_docs = map (\<lambda>t. \<lparr> page_content = t, metadata = Map.empty \<rparr>) gala_texts"

definition gala_nodes :: "llama_Document list" where
  "gala_nodes = map (\<lambda>t. \<lparr> text_field = t, metadata_field = Map.empty \<rparr>) gala_texts"

definition sample_score :: "string \<Rightarrow> langchain_Document \<Rightarrow> real" where
  "sample_score q d = term_frequency q (page_content d)"

definition sample_score_node :: "string \<Rightarrow> llama_Document \<Rightarrow> real" where
  "sample_score_node q d = term_frequency q (text_field d)"

text \<open>
  A tool and a module-level retriever over the two sample guests, with the sample
  score and a \<open>top_k\<close> of 4 and of 5.
\<close>

definition sample_tool :: GuestInfoRetrieverTool where
  "sample_tool =
     GuestInfoRetrieverTool_init (bm25_retrieve sample_score 4) (docs_smolagents [ada, marie])"

definition sample_retriever :: "string \<Rightarrow> llama_Document list" where
  "sample_retriever = bm25_retrieve sample_score_node 5 (docs_llama_index [ada, marie])"

text \<open>
  Sample values of the parameters of the object model: a retriever constructor
  that returns the ranking over the corpus, one that rejects an empty corpus, the
  object the first constructs over the two sample guests, a base-class call that
  marks a tool as initialized before it forwards, and a retriever object that
  answers its first query only.
\<close>

definition sample_from_documents ::
  "langchain_Document list \<Rightarrow> exception + (string \<Rightarrow> langchain_Document list)" where
  "sample_from_documents docs = Inr (bm25_retrieve sample_score 4 docs)"

definition strict_from_documents ::
  "langchain_Document list \<Rightarrow> exception + (string \<Rightarrow> langchain_Document list)" where
  "strict_from_documents docs =
     (if docs = [] then Inl ''ValueError'' else Inr (bm25_retrieve sample_score 4 docs))"

definition sample_object :: "(string \<Rightarrow> langchain_Document list) GuestInfoRetrieverTool_object" where
  "sample_object =
     \<lparr> attr_is_initialized = Some False,
       attr_retriever = Some (bm25_retrieve sample_score 4 (docs_smolagents [ada, marie])) \<rparr>"

definition lazy_setup :: "'r GuestInfoRetrieverTool_object \<Rightarrow> 'r GuestInfoRetrieverTool_object" where
  "lazy_setup self =
     (if attr_is_initialized self = Some False
      then self\<lparr>attr_is_initialized := Some True\<rparr> else self)"

definition answer_once :: "nat \<Rightarrow> string \<Rightarrow> langchain_Document list \<times> nat" where
  "answer_once n query = (if n = 0 then docs_smolagents [ada] else [], Suc n)"

section \<open>Properties of the corpus builders\<close>

lemma docs_llama_index_map:
  "docs_llama_index gs =
     map (\<lambda>g. \<lparr> text_field = document_text_spec g, metadata_field = [''name'' \<mapsto> name g] \<rparr>) gs"
  unfolding docs_llama_index_def document_text_spec_def
  by (rule nth_equalityI) simp_all

text \<open>
  C2. Every guest record yields one document whose text is the four labelled
  strings joined by newlines, in every variant. The llama-index builder does so
  (\<open>docs_llama_index_map\<close>); the smolagents builder does not: for the sample guest
  its text runs the description and the e-mail label together, with no newline
  between them, and so differs from the text the specification describes.
\<close>

theorem docs_smolagents_ada_text:
  "map page_content (docs_smolagents [ada]) =
     [''Name: Ada Lovelace\<newline>Relation: aunt\<newline>Description: mathematicianEmail: ada@example.com'']
   \<and> document_text_spec ada =
     ''Name: Ada Lovelace\<newline>Relation: aunt\<newline>Description: mathematician\<newline>Email: ada@example.com''
   \<and> map text_field (docs_llama_index [ada]) = [document_text_spec ada]
   \<and> map page_content (docs_smolagents [ada]) \<noteq> [document_text_spec ada]"
  by (simp add: docs_smolagents_def docs_llama_index_map document_text_spec_def ada_def)

text \<open>
  C5. The built corpus has as many documents as there are records, and the
  document at each index carries, under the metadata key \<open>name\<close>, the name of the
  record at that index; in both variants, for every record sequence (the
  non-empty ones included).
\<close>

theorem corpus_index_correspondence:
  "length (docs_smolagents gs) = length gs
   \<and> length (docs_llama_index gs) = length gs
   \<and> (\<forall>i < length gs.
         metadata (docs_smolagents gs ! i) ''name'' = Some (name (gs ! i))
       \<and> metadata_field (docs_llama_index gs ! i) ''name'' = Some (name (gs ! i)))"
  by (simp add: docs_smolagents_def docs_llama_index_def)

theorem corpus_index_correspondence_witness:
  "[ada, marie] \<noteq> []
   \<and> length (docs_smolagents [ada, marie]) = 2
   \<and> length (docs_llama_index [ada, marie]) = 2
   \<and> metadata (docs_smolagents [ada, marie] ! 1) ''name'' = Some ''Marie Curie''
   \<and> metadata_field (docs_llama_index [ada, marie] ! 1) ''name'' = Some ''Marie Curie''"
proof -
  have i: "(1::nat) < length [ada, marie]" by simp
  from corpus_index_correspondence [of "[ada, marie]"] i
  have "metadata (docs_smolagents [ada, marie] ! 1) ''name'' = Some (name ([ada, marie] ! 1))"
    and "metadata_field (docs_llama_index [ada, marie] ! 1) ''name'' = Some (name ([ada, marie] ! 1))"
    and "length (docs_smolagents [ada, marie]) = length [ada, marie]"
    and "length (docs_llama_index [ada, marie]) = length [ada, marie]"
    by blast+
  then show ?thesis by (simp add: marie_def)
qed


section \<open>Properties of the retriever\<close>

lemma rank_documents_descending:
  "sorted_wrt (\<lambda>a b. score q b \<le> score q a) (rank_documents score q docs)"
proof -
  have "sorted (map (\<lambda>d. - score q d) (rank_documents score q docs))"
    by (simp add: rank_documents_def)
  then show ?thesis by (simp add: sorted_map sorted_wrt_iff_nth_less)
qed

lemma rank_documents_stable:
  "filter (\<lambda>d. score q d = s) (rank_documents score q docs) = filter (\<lambda>d. score q d = s) docs"
  using sort_key_stable [of "\<lambda>d. - score q d" "- s" docs]
  by (simp add: rank_documents_def)

lemma positive_prefix:
  "sorted_wrt (\<lambda>a b. (f b::real) \<le> f a) xs \<Longrightarrow>
     filter (\<lambda>d. 0 < f d) (take k xs) = take k (filter (\<lambda>d. 0 < f d) xs)"
proof (induction xs arbitrary: k)
  case Nil
  then show ?case by simp
next
  case (Cons x xs)
  show ?case
  proof (cases k)
    case 0
    then show ?thesis by simp
  next
    case (Suc j)
    show ?thesis
    proof (cases "0 < f x")
      case True
      with Cons Suc show ?thesis by simp
    next
      case False
      with Cons.prems have "\<forall>y\<in>set xs. \<not> 0 < f y" by fastforce
      then have "filter (\<lambda>d. 0 < f d) xs = []" "filter (\<lambda>d. 0 < f d) (take j xs) = []"
        by (auto simp: filter_empty_conv dest: in_set_takeD)
      with False Suc show ?thesis by simp
    qed
  qed
qed

lemma bm25_retrieve_top:
  "bm25_retrieve score k docs q =
     take k (filter (\<lambda>d. 0 < score q d) (rank_documents score q docs))"
  unfolding bm25_retrieve_def using positive_prefix [OF rank_documents_descending] by fast

lemma bm25_retrieve_subset: "set (bm25_retrieve score k docs q) \<subseteq> set docs"
  by (auto simp: bm25_retrieve_def rank_documents_def dest: in_set_takeD)

lemma length_bm25_retrieve:
  "length (bm25_retrieve score k docs q) = min k (length (filter (\<lambda>d. 0 < score q d) docs))"
  by (simp add: bm25_retrieve_top rank_documents_def filter_sort)

lemma bm25_retrieve_empty_iff:
  "bm25_retrieve score k docs q = [] \<longleftrightarrow> k = 0 \<or> (\<forall>d\<in>set docs. score q d \<le> 0)"
proof -
  have "bm25_retrieve score k docs q = [] \<longleftrightarrow> length (bm25_retrieve score k docs q) = 0" by simp
  also have "\<dots> \<longleftrightarrow> k = 0 \<or> length (filter (\<lambda>d. 0 < score q d) docs) = 0"
    unfolding length_bm25_retrieve by (auto simp: min_def)
  also have "\<dots> \<longleftrightarrow> k = 0 \<or> (\<forall>d\<in>set docs. score q d \<le> 0)"
    by (auto simp: filter_empty_conv not_less)
  finally show ?thesis .
qed

text \<open>
  The ranking is by descending score (\<open>rank_documents_descending\<close>) and keeps
  documents of equal score in corpus order (\<open>rank_documents_stable\<close>); taking the
  top \<open>top_k\<close> and keeping the positive scores is taking the first \<open>top_k\<close> of
  the positive scores (\<open>bm25_retrieve_top\<close>).
\<close>

section \<open>Properties of the guest lookup tool\<close>

text \<open>
  C1. On a constructed tool, retrieval returns the texts of the matching documents
  joined by a blank line, in ranked order, when some document scores above zero,
  and exactly the string \<^verbatim>\<open>No relevant documents found\<close> when no document does (an
  empty corpus included). The documents joined are the first of the ranking among
  those that score above zero: at most three and at most \<open>top_k\<close> in the smolagents
  variant, at most \<open>top_k\<close> in the llama-index variant. The retriever is
  \<open>bm25_retrieve\<close>, for any scoring function and any positive \<open>top_k\<close>.
\<close>

theorem retrieve_by_relevance:
  assumes "0 < top_k" and "0 < node_top_k"
  shows "((\<exists>d\<in>set docs. 0 < score q d) \<longrightarrow>
            forward (GuestInfoRetrieverTool_init (bm25_retrieve score top_k) docs) q =
              str_join ''\<newline>\<newline>''
                (map page_content
                   (take (min 3 top_k) (filter (\<lambda>d. 0 < score q d) (rank_documents score q docs)))))
       \<and> ((\<forall>d\<in>set docs. score q d \<le> 0) \<longrightarrow>
            forward (GuestInfoRetrieverTool_init (bm25_retrieve score top_k) docs) q =
              ''No relevant documents found'')
       \<and> ((\<exists>d\<in>set nodes. 0 < node_score q d) \<longrightarrow>
            get_guest_info_retirever (bm25_retrieve node_score node_top_k nodes) q =
              str_join ''\<newline>\<newline>''
                (map text_field
                   (take node_top_k (filter (\<lambda>d. 0 < node_score q d) (rank_documents node_score q nodes)))))
       \<and> ((\<forall>d\<in>set nodes. node_score q d \<le> 0) \<longrightarrow>
            get_guest_info_retirever (bm25_retrieve node_score node_top_k nodes) q =
              ''No relevant documents found'')"
proof -
  have ne: "bm25_retrieve score top_k docs q \<noteq> []" if "\<exists>d\<in>set docs. 0 < score q d"
    using that assms(1) by (auto simp: bm25_retrieve_empty_iff not_le)
  have ne2: "bm25_retrieve node_score node_top_k nodes q \<noteq> []" if "\<exists>d\<in>set nodes. 0 < node_score q d"
    using that assms(2) by (auto simp: bm25_retrieve_empty_iff not_le)
  have e: "bm25_retrieve score top_k docs q = []" if "\<forall>d\<in>set docs. score q d \<le> 0"
    using that by (simp add: bm25_retrieve_empty_iff)
  have e2: "bm25_retrieve node_score node_top_k nodes q = []" if "\<forall>d\<in>set nodes. node_score q d \<le> 0"
    using that by (simp add: bm25_retrieve_empty_iff)
  have t: "take 3 (bm25_retrieve score top_k docs q) =
             take (min 3 top_k) (filter (\<lambda>d. 0 < score q d) (rank_documents score q docs))"
    by (simp add: bm25_retrieve_top)
  show ?thesis
    using ne ne2 e e2 t
    by (auto simp: forward_def get_guest_info_retirever_def GuestInfoRetrieverTool_init_def
        no_relevant_documents_def bm25_retrieve_top [of node_score node_top_k nodes q, symmetric]
        simp del: take_take)
qed

theorem retrieve_by_relevance_witness:
  "forward sample_tool ''Ada Lovelace'' =
     ''Name: Ada Lovelace\<newline>Relation: aunt\<newline>Description: mathematicianEmail: ada@example.com''
   \<and> forward sample_tool ''Nikola Tesla'' = ''No relevant documents found''
   \<and> get_guest_info_retirever sample_retriever ''Marie Curie'' =
     ''Name: Marie Curie\<newline>Relation: friend\<newline>Description: physicist\<newline>Email: marie@example.com''
   \<and> get_guest_info_retirever sample_retriever ''Nikola Tesla'' = ''No relevant documents found''"
proof -
  let ?D = "docs_smolagents [ada, marie]" and ?N = "docs_llama_index [ada, marie]"
  have k: "0 < (4::nat)" "0 < (5::nat)" by simp_all
  have p1: "\<exists>d\<in>set ?D. 0 < sample_score ''Ada Lovelace'' d"
    and z1: "\<forall>d\<in>set ?D. sample_score ''Nikola Tesla'' d \<le> 0"
    and p2: "\<exists>d\<in>set ?N. 0 < sample_score_node ''Marie Curie'' d"
    and z2: "\<forall>d\<in>set ?N. sample_score_node ''Nikola Tesla'' d \<le> 0"
    by (simp_all add: sample_score_def sample_score_node_def term_frequency_def
        docs_smolagents_def docs_llama_index_map document_text_spec_def ada_def marie_def)
  note a = retrieve_by_relevance [OF k, where docs = ?D and score = sample_score
      and nodes = ?N and node_score = sample_score_node and q = "''Ada Lovelace''"]
  note m = retrieve_by_relevance [OF k, where docs = ?D and score = sample_score
      and nodes = ?N and node_score = sample_score_node and q = "''Marie Curie''"]
  note n = retrieve_by_relevance [OF k, where docs = ?D and score = sample_score
      and nodes = ?N and node_score = sample_score_node and q = "''Nikola Tesla''"]
  have "forward sample_tool ''Ada Lovelace'' =
          str_join ''\<newline>\<newline>'' (map page_content (take (min 3 4)
            (filter (\<lambda>d. 0 < sample_score ''Ada Lovelace'' d)
               (rank_documents sample_score ''Ada Lovelace'' ?D))))"
    using a p1 unfolding sample_tool_def by blast
  moreover have "forward sample_tool ''Nikola Tesla'' = ''No relevant documents found''"
    using n z1 unfolding sample_tool_def by blast
  moreover have "get_guest_info_retirever sample_retriever ''Marie Curie'' =
          str_join ''\<newline>\<newline>'' (map text_field (take 5
            (filter (\<lambda>d. 0 < sample_score_node ''Marie Curie'' d)
               (rank_documents sample_score_node ''Marie Curie'' ?N))))"
    using m p2 unfolding sample_retriever_def by blast
  moreover have "get_guest_info_retirever sample_retriever ''Nikola Tesla'' = ''No relevant documents found''"
    using n z2 unfolding sample_retriever_def by blast
  ultimately show ?thesis
    by (simp add: sample_score_def sample_score_node_def term_frequency_def rank_documents_def
        docs_smolagents_def docs_llama_index_map document_text_spec_def ada_def marie_def)
qed


text \<open>
  C3 (as amended). The smolagents \<^verbatim>\<open>forward\<close> joins the first three results of its
  retriever and never more, whatever the retriever; over \<open>bm25_retrieve\<close> with a
  \<open>top_k\<close> of three or more and three or more documents scoring above zero, these are
  exactly three texts, in descending order of score. The llama-index function has
  no cap of its own: it joins every document its retriever returns, as many as
  \<open>top_k\<close> and the number of documents scoring above zero allow.
\<close>

theorem forward_top_three:
  assumes "3 \<le> top_k" and "3 \<le> length (filter (\<lambda>d. 0 < score q d) docs)"
    and "0 < node_top_k" and "\<exists>d\<in>set nodes. 0 < node_score q d"
  shows "length (take 3 (retriever self q)) \<le> 3
       \<and> forward self q =
           (if retriever self q = [] then ''No relevant documents found''
            else str_join ''\<newline>\<newline>'' (map page_content (take 3 (retriever self q))))
       \<and> forward (GuestInfoRetrieverTool_init (bm25_retrieve score top_k) docs) q =
           str_join ''\<newline>\<newline>''
             (map page_content
                (take 3 (filter (\<lambda>d. 0 < score q d) (rank_documents score q docs))))
       \<and> length (take 3 (filter (\<lambda>d. 0 < score q d) (rank_documents score q docs))) = 3
       \<and> sorted_wrt (\<lambda>a b. score q b \<le> score q a)
           (take 3 (filter (\<lambda>d. 0 < score q d) (rank_documents score q docs)))
       \<and> get_guest_info_retirever (bm25_retrieve node_score node_top_k nodes) q =
           str_join ''\<newline>\<newline>''
             (map text_field
                (take node_top_k
                   (filter (\<lambda>d. 0 < node_score q d) (rank_documents node_score q nodes))))
       \<and> length (take node_top_k
                   (filter (\<lambda>d. 0 < node_score q d) (rank_documents node_score q nodes))) =
           min node_top_k (length (filter (\<lambda>d. 0 < node_score q d) nodes))"
proof -
  let ?pos = "filter (\<lambda>d. 0 < score q d) (rank_documents score q docs)"
  have len: "length ?pos = length (filter (\<lambda>d. 0 < score q d) docs)"
    by (simp add: rank_documents_def filter_sort)
  have three: "length (take 3 ?pos) = 3"
    using assms(2) len by simp
  have ne: "bm25_retrieve score top_k docs q \<noteq> []"
  proof
    assume "bm25_retrieve score top_k docs q = []"
    then have "length (bm25_retrieve score top_k docs q) = 0" by simp
    with assms(1,2) show False by (simp add: length_bm25_retrieve)
  qed
  have t: "take 3 (bm25_retrieve score top_k docs q) = take 3 ?pos"
    using assms(1) by (simp add: bm25_retrieve_top min_def)
  have f: "forward (GuestInfoRetrieverTool_init (bm25_retrieve score top_k) docs) q =
             str_join ''\<newline>\<newline>'' (map page_content (take 3 ?pos))"
    using ne t by (simp add: forward_def GuestInfoRetrieverTool_init_def)
  have s: "sorted_wrt (\<lambda>a b. score q b \<le> score q a) (take 3 ?pos)"
    by (intro sorted_wrt_take sorted_wrt_filter rank_documents_descending)
  have ne_n: "bm25_retrieve node_score node_top_k nodes q \<noteq> []"
    using assms(3,4) by (auto simp: bm25_retrieve_empty_iff not_le)
  have g: "get_guest_info_retirever (bm25_retrieve node_score node_top_k nodes) q =
             str_join ''\<newline>\<newline>'' (map text_field (bm25_retrieve node_score node_top_k nodes q))"
    using ne_n by (simp add: get_guest_info_retirever_def)
  have l: "length (bm25_retrieve node_score node_top_k nodes q) =
             min node_top_k (length (filter (\<lambda>d. 0 < node_score q d) nodes))"
    by (rule length_bm25_retrieve)
  have u: "forward self q =
           (if retriever self q = [] then ''No relevant documents found''
            else str_join ''\<newline>\<newline>'' (map page_content (take 3 (retriever self q))))"
    by (simp add: forward_def no_relevant_documents_def)
  have c: "length (take 3 (retriever self q)) \<le> 3" by simp
  show ?thesis
    using c u f three s g l unfolding bm25_retrieve_top by blast
qed

theorem forward_top_three_witness:
  "forward (GuestInfoRetrieverTool_init (bm25_retrieve sample_score 4) gala_docs) ''gala'' =
     ''gala gala gala three\<newline>\<newline>gala gala two\<newline>\<newline>gala five gala''
   \<and> length (take 3 (filter (\<lambda>d. 0 < sample_score ''gala'' d)
                 (rank_documents sample_score ''gala'' gala_docs))) = 3
   \<and> get_guest_info_retirever (bm25_retrieve sample_score_node 2 gala_nodes) ''gala'' =
     ''gala gala gala three\<newline>\<newline>gala gala two''"
proof -
  have h: "3 \<le> (4::nat)"
    "3 \<le> length (filter (\<lambda>d. 0 < sample_score ''gala'' d) gala_docs)"
    "0 < (2::nat)"
    "\<exists>d\<in>set gala_nodes. 0 < sample_score_node ''gala'' d"
    by (simp_all add: sample_score_def sample_score_node_def term_frequency_def
        gala_docs_def gala_nodes_def gala_texts_def)
  note w = forward_top_three [where top_k = 4 and score = sample_score and q = "''gala''"
      and docs = gala_docs and node_top_k = 2 and nodes = gala_nodes
      and node_score = sample_score_node, OF h]
  have "forward (GuestInfoRetrieverTool_init (bm25_retrieve sample_score 4) gala_docs) ''gala'' =
          str_join ''\<newline>\<newline>'' (map page_content (take 3
            (filter (\<lambda>d. 0 < sample_score ''gala'' d)
               (rank_documents sample_score ''gala'' gala_docs))))"
    using w by blast
  moreover have "length (take 3 (filter (\<lambda>d. 0 < sample_score ''gala'' d)
                 (rank_documents sample_score ''gala'' gala_docs))) = 3"
    using w by blast
  moreover have "get_guest_info_retirever (bm25_retrieve sample_score_node 2 gala_nodes) ''gala'' =
          str_join ''\<newline>\<newline>'' (map text_field (take 2
            (filter (\<lambda>d. 0 < sample_score_node ''gala'' d)
               (rank_documents sample_score_node ''gala'' gala_nodes))))"
    using w by blast
  ultimately show ?thesis
    by (simp add: sample_score_def sample_score_node_def term_frequency_def rank_documents_def
        gala_docs_def gala_nodes_def gala_texts_def)
qed

text \<open>
  C3 as stated fails in the llama-index variant: with five documents that all
  contain the query word and a retriever that returns the five, the function joins
  five texts, not the first three; with a retriever that returns two, it joins two.
\<close>

theorem get_guest_info_retirever_uncapped:
  "get_guest_info_retirever (bm25_retrieve sample_score_node 5 gala_nodes) ''gala'' =
     str_join ''\<newline>\<newline>''
       [''gala gala gala three'', ''gala gala two'', ''gala five gala'', ''gala one'', ''four gala'']
   \<and> get_guest_info_retirever (bm25_retrieve sample_score_node 5 gala_nodes) ''gala'' \<noteq>
     str_join ''\<newline>\<newline>'' [''gala gala gala three'', ''gala gala two'', ''gala five gala'']
   \<and> get_guest_info_retirever (bm25_retrieve sample_score_node 2 gala_nodes) ''gala'' \<noteq>
     str_join ''\<newline>\<newline>'' [''gala gala gala three'', ''gala gala two'', ''gala five gala'']"
  by (simp add: get_guest_info_retirever_def bm25_retrieve_def sample_score_node_def
      term_frequency_def rank_documents_def gala_nodes_def gala_texts_def)

text \<open>
  C8 (as amended). The smolagents tool's \<^verbatim>\<open>description\<close> is the sentence of the
  specification without its final period. The llama-index variant declares no
  description string; the text it hands to \<^verbatim>\<open>FunctionTool.from_defaults\<close> is the
  function's docstring, a different sentence set between indented line breaks.
\<close>

theorem description_without_period:
  "GuestInfoRetrieverTool_description @ ''.'' = capability_description_spec
   \<and> get_guest_info_retirever_doc =
       ''\<newline>    '' @ ''Retrieves detailed information about gala guests based on their name or relation''
         @ ''\<newline>    ''"
  by (simp add: GuestInfoRetrieverTool_description_def capability_description_spec_def
      get_guest_info_retirever_doc_def)

text \<open>
  C8 as stated fails: neither the smolagents \<^verbatim>\<open>description\<close> nor the llama-index
  docstring is the sentence of the specification.
\<close>

theorem description_differs_from_spec:
  "GuestInfoRetrieverTool_description \<noteq> capability_description_spec
   \<and> get_guest_info_retirever_doc \<noteq> capability_description_spec"
  by (simp add: GuestInfoRetrieverTool_description_def capability_description_spec_def
      get_guest_info_retirever_doc_def)

text \<open>
  C10. Provided the retriever returns documents of the corpus only, every result
  other than the sentinel is a join, by blank lines, of a non-empty list of strings
  each of which is the text of a corpus document; in both variants.
\<close>

theorem retrieve_only_corpus_texts:
  assumes "set (from_documents docs q) \<subseteq> set docs" and "set (bm25_retirever q) \<subseteq> set nodes"
  shows "(forward (GuestInfoRetrieverTool_init from_documents docs) q \<noteq> ''No relevant documents found'' \<longrightarrow>
            (\<exists>ts. ts \<noteq> [] \<and> set ts \<subseteq> page_content ` set docs
               \<and> forward (GuestInfoRetrieverTool_init from_documents docs) q =
                   str_join ''\<newline>\<newline>'' ts))
       \<and> (get_guest_info_retirever bm25_retirever q \<noteq> ''No relevant documents found'' \<longrightarrow>
            (\<exists>ts. ts \<noteq> [] \<and> set ts \<subseteq> text_field ` set nodes
               \<and> get_guest_info_retirever bm25_retirever q = str_join ''\<newline>\<newline>'' ts))"
proof (intro conjI impI)
  assume a: "forward (GuestInfoRetrieverTool_init from_documents docs) q \<noteq> ''No relevant documents found''"
  let ?rs = "from_documents docs q"
  from a have ne: "?rs \<noteq> []"
    by (auto simp: forward_def GuestInfoRetrieverTool_init_def no_relevant_documents_def)
  let ?ts = "map page_content (take 3 ?rs)"
  have "?ts \<noteq> []" using ne by simp
  moreover have "set ?ts \<subseteq> page_content ` set docs"
    using assms(1) by (auto dest: in_set_takeD)
  moreover have "forward (GuestInfoRetrieverTool_init from_documents docs) q = str_join ''\<newline>\<newline>'' ?ts"
    using ne by (simp add: forward_def GuestInfoRetrieverTool_init_def)
  ultimately show "\<exists>ts. ts \<noteq> [] \<and> set ts \<subseteq> page_content ` set docs
               \<and> forward (GuestInfoRetrieverTool_init from_documents docs) q =
                   str_join ''\<newline>\<newline>'' ts"
    by blast
next
  assume a: "get_guest_info_retirever bm25_retirever q \<noteq> ''No relevant documents found''"
  let ?rs = "bm25_retirever q"
  from a have ne: "?rs \<noteq> []"
    by (auto simp: get_guest_info_retirever_def no_relevant_documents_def)
  let ?ts = "map text_field ?rs"
  have "?ts \<noteq> []" using ne by simp
  moreover have "set ?ts \<subseteq> text_field ` set nodes"
    using assms(2) by auto
  moreover have "get_guest_info_retirever bm25_retirever q = str_join ''\<newline>\<newline>'' ?ts"
    using ne by (simp add: get_guest_info_retirever_def)
  ultimately show "\<exists>ts. ts \<noteq> [] \<and> set ts \<subseteq> text_field ` set nodes
               \<and> get_guest_info_retirever bm25_retirever q = str_join ''\<newline>\<newline>'' ts"
    by blast
qed

theorem retrieve_only_corpus_texts_witness:
  "forward sample_tool ''Marie Curie'' \<noteq> ''No relevant documents found''
   \<and> (\<exists>ts. ts \<noteq> [] \<and> set ts \<subseteq> page_content ` set (docs_smolagents [ada, marie])
          \<and> forward sample_tool ''Marie Curie'' = str_join ''\<newline>\<newline>'' ts)
   \<and> get_guest_info_retirever sample_retriever ''Marie Curie'' \<noteq> ''No relevant documents found''
   \<and> (\<exists>ts. ts \<noteq> [] \<and> set ts \<subseteq> text_field ` set (docs_llama_index [ada, marie])
          \<and> get_guest_info_retirever sample_retriever ''Marie Curie'' = str_join ''\<newline>\<newline>'' ts)"
proof -
  have h: "set (bm25_retrieve sample_score 4 (docs_smolagents [ada, marie]) ''Marie Curie'')
             \<subseteq> set (docs_smolagents [ada, marie])"
    "set (sample_retriever ''Marie Curie'') \<subseteq> set (docs_llama_index [ada, marie])"
    unfolding sample_retriever_def by (rule bm25_retrieve_subset)+
  have n: "forward sample_tool ''Marie Curie'' \<noteq> ''No relevant documents found''"
    "get_guest_info_retirever sample_retriever ''Marie Curie'' \<noteq> ''No relevant documents found''"
    by (simp_all add: sample_tool_def sample_retriever_def forward_def get_guest_info_retirever_def
        GuestInfoRetrieverTool_init_def bm25_retrieve_def sample_score_def sample_score_node_def
        term_frequency_def rank_documents_def docs_smolagents_def docs_llama_index_map
        document_text_spec_def ada_def marie_def)
  from retrieve_only_corpus_texts [where from_documents = "bm25_retrieve sample_score 4"
      and docs = "docs_smolagents [ada, marie]" and q = "''Marie Curie''"
      and bm25_retirever = sample_retriever and nodes = "docs_llama_index [ada, marie]", OF h] n
  show ?thesis
    unfolding sample_tool_def by blast
qed

section \<open>Properties of the tool as an object\<close>

lemma forward_call_None:
  "attr_retriever self = None \<Longrightarrow> forward_call invoke self q = (Inl ''AttributeError'', self)"
  by (simp add: forward_call_def)

lemma forward_call_Some:
  "attr_retriever self = Some r \<Longrightarrow>
     forward_call invoke self q =
       (Inr (if fst (invoke r q) \<noteq> []
             then str_join ''\<newline>\<newline>'' (map page_content (take 3 (fst (invoke r q))))
             else no_relevant_documents),
        self\<lparr>attr_retriever := Some (snd (invoke r q))\<rparr>)"
  by (simp add: forward_call_def split: prod.splits)

lemma GuestInfoRetrieverTool_new_cases:
  "GuestInfoRetrieverTool_new from_documents docs =
     (case from_documents docs of
        Inl e \<Rightarrow> Inl e
      | Inr r \<Rightarrow> Inr \<lparr> attr_is_initialized = Some False, attr_retriever = Some r \<rparr>)"
  by (simp add: GuestInfoRetrieverTool_new_def init_call_def new_object_def split: sum.splits)

lemma forward_call_flag:
  "attr_is_initialized (snd (forward_call invoke self q)) = attr_is_initialized self"
  by (cases "attr_retriever self") (simp_all add: forward_call_None forward_call_Some)

lemma forward_calls_flag:
  "attr_is_initialized (snd (forward_calls invoke self qs)) = attr_is_initialized self"
proof (induction qs arbitrary: self)
  case Nil
  show ?case by simp
next
  case (Cons q qs)
  obtain out self' where fc: "forward_call invoke self q = (out, self')"
    by (cases "forward_call invoke self q")
  with forward_call_flag [of invoke self q]
  have "attr_is_initialized self' = attr_is_initialized self" by simp
  with Cons.IH [of self'] fc show ?case
    by (cases "forward_calls invoke self' qs") simp
qed

text \<open>
  With a read-only retriever the outcome of \<open>forward_call\<close> on an initialized object
  is the value of \<open>forward\<close> on the tool with that retriever.
\<close>

lemma forward_call_forward:
  "fst (forward_call read_only_invoke
          \<lparr> attr_is_initialized = Some b, attr_retriever = Some r \<rparr> q) =
     Inr (forward \<lparr> is_initialized = b, retriever = r \<rparr> q)"
  by (simp add: forward_call_Some read_only_invoke_def forward_def)

text \<open>
  Without a contract on the retriever object a repeated call need not repeat its
  answer: over a retriever that answers its first query only, the second call of
  \<^verbatim>\<open>forward\<close> returns the sentinel where the first returned a document.
\<close>

lemma forward_call_answer_once:
  "fst (forward_call answer_once \<lparr> attr_is_initialized = Some False, attr_retriever = Some 0 \<rparr> ''Ada'')
     \<noteq> fst (forward_call answer_once
              (snd (forward_call answer_once
                      \<lparr> attr_is_initialized = Some False, attr_retriever = Some 0 \<rparr> ''Ada'')) ''Ada'')"
  by (simp add: forward_call_Some answer_once_def docs_smolagents_def ada_def
      no_relevant_documents_def)

text \<open>
  C4 (as amended). The tool has two lifecycle states, before \<^verbatim>\<open>__init__\<close> (no
  \<^verbatim>\<open>retriever\<close> attribute) and after it, and \<^verbatim>\<open>forward\<close> moves an object from neither
  to the other. Calling \<^verbatim>\<open>forward\<close> on an object on which \<^verbatim>\<open>__init__\<close> has not run
  fails, with Python's \<^verbatim>\<open>AttributeError\<close> and never with a \<^verbatim>\<open>NotInitializedError\<close>,
  returns no result and leaves the object as it was. \<^verbatim>\<open>forward\<close> fails on exactly
  the objects without the attribute: on every object \<^verbatim>\<open>__init__\<close> has returned it
  returns a string, whatever the flag \<^verbatim>\<open>is_initialized\<close>.
\<close>

theorem forward_before_init:
  "forward_call invoke new_object q = (Inl ''AttributeError'', new_object)
   \<and> fst (forward_call invoke self q) \<noteq> Inl ''NotInitializedError''
   \<and> ((fst (forward_call invoke self q) = Inl ''AttributeError'') = (attr_retriever self = None))
   \<and> ((attr_retriever (snd (forward_call invoke self q)) = None) = (attr_retriever self = None))
   \<and> (GuestInfoRetrieverTool_new from_documents docs = Inr tool \<longrightarrow>
         attr_retriever tool \<noteq> None
       \<and> (\<exists>s. fst (forward_call invoke (tool\<lparr>attr_is_initialized := b\<rparr>) q) = Inr s))"
proof -
  have a: "forward_call invoke new_object q = (Inl ''AttributeError'', new_object)"
    by (simp add: forward_call_None new_object_def)
  have b: "fst (forward_call invoke self q) \<noteq> Inl ''NotInitializedError''"
    by (cases "attr_retriever self") (simp_all add: forward_call_None forward_call_Some)
  have c: "(fst (forward_call invoke self q) = Inl ''AttributeError'') = (attr_retriever self = None)"
    by (cases "attr_retriever self") (simp_all add: forward_call_None forward_call_Some)
  have d: "(attr_retriever (snd (forward_call invoke self q)) = None) = (attr_retriever self = None)"
    by (cases "attr_retriever self") (simp_all add: forward_call_None forward_call_Some)
  have e: "attr_retriever tool \<noteq> None
       \<and> (\<exists>s. fst (forward_call invoke (tool\<lparr>attr_is_initialized := b\<rparr>) q) = Inr s)"
    if "GuestInfoRetrieverTool_new from_documents docs = Inr tool"
  proof -
    from that obtain r where "attr_retriever tool = Some r"
      by (auto simp: GuestInfoRetrieverTool_new_cases split: sum.splits)
    then show ?thesis by (simp add: forward_call_Some)
  qed
  from a b c d e show ?thesis by blast
qed

theorem forward_before_init_witness:
  "GuestInfoRetrieverTool_new sample_from_documents (docs_smolagents [ada, marie]) = Inr sample_object
   \<and> attr_retriever sample_object \<noteq> None
   \<and> (\<exists>s. fst (forward_call read_only_invoke (sample_object\<lparr>attr_is_initialized := Some True\<rparr>)
               ''Ada Lovelace'') = Inr s)"
proof -
  have h: "GuestInfoRetrieverTool_new sample_from_documents (docs_smolagents [ada, marie]) =
             Inr sample_object"
    by (simp add: GuestInfoRetrieverTool_new_cases sample_from_documents_def sample_object_def)
  from forward_before_init [where from_documents = sample_from_documents
      and docs = "docs_smolagents [ada, marie]" and tool = sample_object
      and invoke = read_only_invoke and b = "Some True" and q = "''Ada Lovelace''"] h
  show ?thesis by blast
qed

text \<open>
  C4 as stated fails: on an object on which \<^verbatim>\<open>__init__\<close> has not run, \<^verbatim>\<open>forward\<close>
  fails with \<^verbatim>\<open>AttributeError\<close>, which is not the \<^verbatim>\<open>NotInitializedError\<close> of the
  statement.
\<close>

theorem forward_uninitialized_AttributeError:
  "fst (forward_call (read_only_invoke :: (string \<Rightarrow> langchain_Document list) \<Rightarrow> _)
          new_object ''Ada Lovelace'') = Inl ''AttributeError''
   \<and> fst (forward_call (read_only_invoke :: (string \<Rightarrow> langchain_Document list) \<Rightarrow> _)
          new_object ''Ada Lovelace'') \<noteq> Inl ''NotInitializedError''"
  by (simp add: forward_call_None new_object_def)

text \<open>
  C6 (as amended). Both builders map the empty record sequence to the empty corpus,
  without error. \<^verbatim>\<open>__init__\<close> hands the corpus to the retriever's constructor
  unguarded: on the empty corpus the tool is constructed exactly when that
  constructor returns, and its exception is raised otherwise. On a tool so
  constructed, provided the retriever returns documents of its corpus only and its
  calls leave it as it was, every call of \<^verbatim>\<open>forward\<close> in any sequence of calls returns
  \<^verbatim>\<open>No relevant documents found\<close>; under the same contract so does every call of the
  llama-index function.
\<close>

theorem empty_corpus_initialization:
  assumes "\<forall>q. set (fst (invoke r q)) \<subseteq> set (docs_smolagents [])"
    and "\<forall>q. snd (invoke r q) = r"
    and "\<forall>q. set (fst (retrieve n q)) \<subseteq> set (docs_llama_index [])"
  shows "docs_smolagents [] = []
       \<and> docs_llama_index [] = []
       \<and> GuestInfoRetrieverTool_new from_documents (docs_smolagents []) =
           (case from_documents [] of
              Inl e \<Rightarrow> Inl e
            | Inr r' \<Rightarrow> Inr \<lparr> attr_is_initialized = Some False, attr_retriever = Some r' \<rparr>)
       \<and> forward_calls invoke \<lparr> attr_is_initialized = Some False, attr_retriever = Some r \<rparr> qs =
           (replicate (length qs) (Inr ''No relevant documents found''),
            \<lparr> attr_is_initialized = Some False, attr_retriever = Some r \<rparr>)
       \<and> fst (get_guest_info_retirever_call retrieve n q) = ''No relevant documents found''"
proof -
  have s: "docs_smolagents [] = []" by (simp add: docs_smolagents_def)
  have l: "docs_llama_index [] = []" by (simp add: docs_llama_index_def)
  have c: "GuestInfoRetrieverTool_new from_documents (docs_smolagents []) =
           (case from_documents [] of
              Inl e \<Rightarrow> Inl e
            | Inr r' \<Rightarrow> Inr \<lparr> attr_is_initialized = Some False, attr_retriever = Some r' \<rparr>)"
    by (simp add: GuestInfoRetrieverTool_new_cases s)
  let ?self = "\<lparr> attr_is_initialized = Some False, attr_retriever = Some r \<rparr>"
  have i: "invoke r x = ([], r)" for x
    using assms(1,2) s by (simp add: prod_eq_iff)
  have one: "forward_call invoke ?self x = (Inr ''No relevant documents found'', ?self)" for x
    by (simp add: forward_call_Some i no_relevant_documents_def)
  have f: "forward_calls invoke ?self qs =
             (replicate (length qs) (Inr ''No relevant documents found''), ?self)"
    by (induction qs) (simp_all add: one)
  have "fst (retrieve n q) = []" using assms(3) l by simp
  then have g: "fst (get_guest_info_retirever_call retrieve n q) = ''No relevant documents found''"
    by (cases "retrieve n q")
      (simp add: get_guest_info_retirever_call_def no_relevant_documents_def)
  from s l c f g show ?thesis by blast
qed

theorem empty_corpus_initialization_witness:
  "GuestInfoRetrieverTool_new sample_from_documents (docs_smolagents []) =
     Inr \<lparr> attr_is_initialized = Some False,
           attr_retriever = Some (bm25_retrieve sample_score 4 []) \<rparr>
   \<and> fst (forward_calls read_only_invoke
            \<lparr> attr_is_initialized = Some False,
              attr_retriever = Some (bm25_retrieve sample_score 4 []) \<rparr>
            [''Ada Lovelace'', ''gala'']) =
       [Inr ''No relevant documents found'', Inr ''No relevant documents found'']
   \<and> fst (get_guest_info_retirever_call read_only_invoke
            (bm25_retrieve sample_score_node 5 (docs_llama_index [])) ''Ada Lovelace'') =
       ''No relevant documents found''"
proof -
  have h: "\<forall>q. set (fst (read_only_invoke (bm25_retrieve sample_score 4 []) q))
                 \<subseteq> set (docs_smolagents [])"
    "\<forall>q. snd (read_only_invoke (bm25_retrieve sample_score 4 []) q) =
            bm25_retrieve sample_score 4 []"
    "\<forall>q. set (fst (read_only_invoke
                     (bm25_retrieve sample_score_node 5 (docs_llama_index [])) q))
            \<subseteq> set (docs_llama_index [])"
    using bm25_retrieve_subset [of sample_score 4 "[]"]
      bm25_retrieve_subset [of sample_score_node 5 "docs_llama_index []"]
    by (simp_all add: read_only_invoke_def)
  from empty_corpus_initialization [where invoke = read_only_invoke
      and r = "bm25_retrieve sample_score 4 []" and retrieve = read_only_invoke
      and n = "bm25_retrieve sample_score_node 5 (docs_llama_index [])"
      and from_documents = sample_from_documents
      and qs = "[''Ada Lovelace'', ''gala'']" and q = "''Ada Lovelace''", OF h]
  have c: "GuestInfoRetrieverTool_new sample_from_documents (docs_smolagents []) =
           (case sample_from_documents [] of
              Inl e \<Rightarrow> Inl e
            | Inr r' \<Rightarrow> Inr \<lparr> attr_is_initialized = Some False, attr_retriever = Some r' \<rparr>)"
    and f: "forward_calls read_only_invoke
              \<lparr> attr_is_initialized = Some False,
                attr_retriever = Some (bm25_retrieve sample_score 4 []) \<rparr>
              [''Ada Lovelace'', ''gala''] =
            (replicate (length [''Ada Lovelace'', ''gala'']) (Inr ''No relevant documents found''),
             \<lparr> attr_is_initialized = Some False,
               attr_retriever = Some (bm25_retrieve sample_score 4 []) \<rparr>)"
    and g: "fst (get_guest_info_retirever_call read_only_invoke
            (bm25_retrieve sample_score_node 5 (docs_llama_index [])) ''Ada Lovelace'') =
       ''No relevant documents found''"
    by blast+
  have c': "GuestInfoRetrieverTool_new sample_from_documents (docs_smolagents []) =
     Inr \<lparr> attr_is_initialized = Some False,
           attr_retriever = Some (bm25_retrieve sample_score 4 []) \<rparr>"
    using c by (simp add: sample_from_documents_def)
  have f': "fst (forward_calls read_only_invoke
            \<lparr> attr_is_initialized = Some False,
              attr_retriever = Some (bm25_retrieve sample_score 4 []) \<rparr>
            [''Ada Lovelace'', ''gala'']) =
       [Inr ''No relevant documents found'', Inr ''No relevant documents found'']"
    unfolding f by (simp add: numeral_2_eq_2)
  from c' f' g show ?thesis by blast
qed

text \<open>
  C6 as stated fails where the retriever's constructor rejects an empty corpus: the
  exception leaves \<^verbatim>\<open>__init__\<close> and no tool is constructed.
\<close>

theorem empty_corpus_constructor_raises:
  "docs_smolagents [] = []
   \<and> GuestInfoRetrieverTool_new strict_from_documents (docs_smolagents []) = Inl ''ValueError''"
  by (simp add: GuestInfoRetrieverTool_new_cases strict_from_documents_def docs_smolagents_def)



text \<open>
  C9 (as amended). In the smolagents variant \<^verbatim>\<open>__init__\<close> sets \<^verbatim>\<open>is_initialized\<close> to
  \<^verbatim>\<open>False\<close>, and the methods the class defines never set, read or check it
  thereafter: a call of \<^verbatim>\<open>forward\<close>, and any sequence of such calls, leaves the flag
  as it was, and the outcome of \<^verbatim>\<open>forward\<close> is the same for every value of the flag.
  Over the life of the tool the flag is what the inherited call, through which the
  agent uses the tool, makes of it: after such a call it has the value that what
  the base class does before forwarding gave it.
\<close>

theorem is_initialized_own_methods:
  "(GuestInfoRetrieverTool_new from_documents docs = Inr tool \<longrightarrow>
      attr_is_initialized tool = Some False)
   \<and> attr_is_initialized (snd (forward_call invoke self q)) = attr_is_initialized self
   \<and> attr_is_initialized (snd (forward_calls invoke self qs)) = attr_is_initialized self
   \<and> fst (forward_call invoke (self\<lparr>attr_is_initialized := b\<rparr>) q) = fst (forward_call invoke self q)
   \<and> attr_is_initialized (snd (tool_call before_forward invoke self q)) =
       attr_is_initialized (before_forward self)"
proof -
  have a: "attr_is_initialized tool = Some False"
    if "GuestInfoRetrieverTool_new from_documents docs = Inr tool"
    using that by (auto simp: GuestInfoRetrieverTool_new_cases split: sum.splits)
  have d: "fst (forward_call invoke (self\<lparr>attr_is_initialized := b\<rparr>) q) = fst (forward_call invoke self q)"
    by (cases "attr_retriever self") (simp_all add: forward_call_None forward_call_Some)
  have e: "attr_is_initialized (snd (tool_call before_forward invoke self q)) =
       attr_is_initialized (before_forward self)"
    by (simp add: tool_call_def forward_call_flag)
  from a d e forward_call_flag [of invoke self q] forward_calls_flag [of invoke self qs]
  show ?thesis by blast
qed

theorem is_initialized_own_methods_witness:
  "GuestInfoRetrieverTool_new sample_from_documents (docs_smolagents [ada, marie]) = Inr sample_object
   \<and> attr_is_initialized sample_object = Some False
   \<and> attr_is_initialized
       (snd (forward_calls read_only_invoke sample_object [''Ada Lovelace'', ''Marie Curie''])) =
       Some False"
proof -
  have h: "GuestInfoRetrieverTool_new sample_from_documents (docs_smolagents [ada, marie]) =
             Inr sample_object"
    by (simp add: GuestInfoRetrieverTool_new_cases sample_from_documents_def sample_object_def)
  from is_initialized_own_methods [where from_documents = sample_from_documents
      and docs = "docs_smolagents [ada, marie]" and tool = sample_object
      and invoke = read_only_invoke and self = sample_object
      and qs = "[''Ada Lovelace'', ''Marie Curie'']"] h
  have "attr_is_initialized sample_object = Some False"
    and "attr_is_initialized
       (snd (forward_calls read_only_invoke sample_object [''Ada Lovelace'', ''Marie Curie''])) =
       attr_is_initialized sample_object"
    by blast+
  with h show ?thesis by simp
qed

text \<open>
  C9 as stated fails over the life of the tool: where the inherited call marks a
  tool that is not yet initialized as initialized before it forwards, the flag of
  the constructed tool is \<^verbatim>\<open>True\<close> after the first call.
\<close>

theorem is_initialized_set_by_inherited_call:
  "GuestInfoRetrieverTool_new sample_from_documents (docs_smolagents [ada, marie]) = Inr sample_object
   \<and> attr_is_initialized sample_object = Some False
   \<and> attr_is_initialized
       (snd (tool_call lazy_setup read_only_invoke sample_object ''Ada Lovelace'')) = Some True"
  by (simp add: GuestInfoRetrieverTool_new_cases sample_from_documents_def sample_object_def
      tool_call_def forward_call_flag lazy_setup_def)

end
